theory Spec2Isabelle
  imports Main "HOL-Library.Word"
begin

unbundle bit_operations_syntax

section \<open>The HTTP/2 frame codec of package frame\<close>

text \<open>
  A shallow embedding of \<^verbatim>\<open>frame/frame.go\<close>. Go's fixed-width unsigned integers
  are words, a \<^verbatim>\<open>[]byte\<close> is a list of bytes, a struct is a record, and the
  embedded \<^verbatim>\<open>*FrameHeader\<close> of every frame struct is a record extension, so that
  the promoted fields \<^verbatim>\<open>frame.Length\<close> and \<^verbatim>\<open>frame.Flags\<close> read as they do in Go.
  A nil slice and an empty slice are the same list, and the embedded header pointer is
  never nil.
\<close>

type_synonym uint8 = "8 word"
type_synonym uint16 = "16 word"
type_synonym uint32 = "32 word"

subsection \<open>Errors and panics\<close>

text \<open>
  A Go function of this package ends in one of three ways: it returns a nil error, it
  returns a non-nil error (here always one handed up from the reader or the writer), or
  the runtime panics. The package declares no error value of its own.
\<close>

datatype error = EOF | ErrUnexpectedEOF | ErrShortWrite

datatype panic = IndexOutOfRange | SliceBoundsOutOfRange

datatype failure = Err error | Panic panic

subsection \<open>Frame types and names\<close>

definition DataFrameType :: uint8 where "DataFrameType = 0x0"
definition HeadersFrameType :: uint8 where "HeadersFrameType = 0x1"
definition PriorityFrameType :: uint8 where "PriorityFrameType = 0x2"
definition RstStreamFrameType :: uint8 where "RstStreamFrameType = 0x3"
definition SettingsFrameType :: uint8 where "SettingsFrameType = 0x4"
definition PushPromiseFrameType :: uint8 where "PushPromiseFrameType = 0x5"
definition PingFrameType :: uint8 where "PingFrameType = 0x6"
definition GoAwayFrameType :: uint8 where "GoAwayFrameType = 0x7"
definition WindowUpdateFrameType :: uint8 where "WindowUpdateFrameType = 0x8"
definition ContinuationFrameType :: uint8 where "ContinuationFrameType = 0x9"

text \<open>
  Indexing a Go slice: the element when the index is in range, a run-time panic
  otherwise.
\<close>

definition index :: "'a list \<Rightarrow> nat \<Rightarrow> failure + 'a" where
  "index xs i = (if i < length xs then Inr (xs ! i) else Inl (Panic IndexOutOfRange))"

definition FrameName_names :: "string list" where
  "FrameName_names =
     [''DATA'', ''HEADERS'', ''PRIORITY'', ''RST_STREAM'', ''SETTINGS'', ''PUSH_PROMISE'',
      ''PING'', ''GOAWAY'', ''WINDOW_UPDATE'', ''CONTINUATION'']"

definition FrameName :: "uint8 \<Rightarrow> failure + string" where
  "FrameName i = index FrameName_names (unat i)"

subsection \<open>Error codes\<close>

type_synonym ErrorCode = uint32

definition NO_ERROR :: ErrorCode where "NO_ERROR = 0"
definition PROTOCOL_ERROR :: ErrorCode where "PROTOCOL_ERROR = 1"
definition INTERNAL_ERROR :: ErrorCode where "INTERNAL_ERROR = 2"
definition FLOW_CONTROL_ERROR :: ErrorCode where "FLOW_CONTROL_ERROR = 3"
definition SETTINGS_TIMEOUT :: ErrorCode where "SETTINGS_TIMEOUT = 4"
definition STREAM_CLOSED :: ErrorCode where "STREAM_CLOSED = 5"
definition FRAME_SIZE_ERROR :: ErrorCode where "FRAME_SIZE_ERROR = 6"
definition REFUSED_STREAM :: ErrorCode where "REFUSED_STREAM = 7"
definition CANCEL :: ErrorCode where "CANCEL = 8"
definition COMPRESSION_ERROR :: ErrorCode where "COMPRESSION_ERROR = 9"
definition CONNECT_ERROR :: ErrorCode where "CONNECT_ERROR = 10"
definition ENHANCE_YOUR_CALM :: ErrorCode where "ENHANCE_YOUR_CALM = 11"
definition INADEQUATE_SECURITY :: ErrorCode where "INADEQUATE_SECURITY = 12"

definition ErrorCode_errors :: "string list" where
  "ErrorCode_errors =
     [''NO_ERROR'', ''PROTOCOL_ERROR'', ''PROTOCOL_ERROR'', ''INTERNAL_ERROR'',
      ''FLOW_CONTROL_ERROR'', ''SETTINGS_TIMEOUT'', ''STREAM_CLOSED'', ''FRAME_SIZE_ERROR'',
      ''REFUSED_STREAM'', ''CANCEL'', ''COMPRESSION_ERROR'', ''CONNECT_ERROR'',
      ''ENHANCE_YOUR_CALM'', ''INADEQUATE_SECURITY'']"

definition ErrorCode_String :: "ErrorCode \<Rightarrow> failure + string" where
  "ErrorCode_String e = index ErrorCode_errors (unat e)"

subsection \<open>Flags\<close>

definition UNSET :: uint8 where "UNSET = 0x0"
definition END_STREAM :: uint8 where "END_STREAM = 0x1"
definition ACK :: uint8 where "ACK = 0x1"
definition END_HEADERS :: uint8 where "END_HEADERS = 0x4"
definition PADDED :: uint8 where "PADDED = 0x8"
definition PRIORITY :: uint8 where "PRIORITY = 0x20"

subsection \<open>Byte order: \<^verbatim>\<open>binary.BigEndian\<close>\<close>

definition PutUint32 :: "uint32 \<Rightarrow> uint8 list" where
  "PutUint32 v = [ucast (drop_bit 24 v), ucast (drop_bit 16 v), ucast (drop_bit 8 v), ucast v]"

text \<open>
  \<^verbatim>\<open>Uint32\<close> reads the first four bytes of a buffer; package binary applies it
  only to a buffer that \<^verbatim>\<open>io.ReadFull\<close> has filled.
\<close>

definition Uint32 :: "uint8 list \<Rightarrow> uint32" where
  "Uint32 b = ucast (b ! 3) OR push_bit 8 (ucast (b ! 2)) OR push_bit 16 (ucast (b ! 1))
     OR push_bit 24 (ucast (b ! 0))"

subsection \<open>Readers and writers\<close>

text \<open>
  An \<^verbatim>\<open>io.Reader\<close> is the list of bytes it has still to deliver.
  \<^verbatim>\<open>io.ReadFull\<close> delivers exactly \<open>n\<close> bytes, or fails with \<^verbatim>\<open>io.EOF\<close> when
  nothing is left and with \<^verbatim>\<open>io.ErrUnexpectedEOF\<close> when the source ends early.
  Asking for no bytes succeeds on every reader. A \<^verbatim>\<open>Read\<close> method that fails
  returns its error alone: what it had stored in the frame up to then is not kept.
  \<^verbatim>\<open>make([]byte, n)\<close> is taken to succeed for every 32-bit \<open>n\<close>, and
  \<^verbatim>\<open>int\<close> to hold 64 bits.
\<close>

type_synonym reader = "uint8 list"

definition ReadFull :: "reader \<Rightarrow> nat \<Rightarrow> error + (uint8 list \<times> reader)" where
  "ReadFull r n =
     (if n \<le> length r then Inr (take n r, drop n r)
      else if r = [] then Inl EOF
      else Inl ErrUnexpectedEOF)"

text \<open>
  \<^verbatim>\<open>binary.Read(r, binary.BigEndian, data)\<close> at the three kinds of \<open>data\<close> the
  package passes besides the header struct: a pointer to an 8-bit value, a pointer to
  a 32-bit value, and a pointer to a byte slice, which is filled to its length.
\<close>

definition binary_Read_uint8 :: "reader \<Rightarrow> failure + (uint8 \<times> reader)" where
  "binary_Read_uint8 r =
     (case ReadFull r 1 of Inl e \<Rightarrow> Inl (Err e) | Inr (bs, r') \<Rightarrow> Inr (bs ! 0, r'))"

definition binary_Read_uint32 :: "reader \<Rightarrow> failure + (uint32 \<times> reader)" where
  "binary_Read_uint32 r =
     (case ReadFull r 4 of Inl e \<Rightarrow> Inl (Err e) | Inr (bs, r') \<Rightarrow> Inr (Uint32 bs, r'))"

definition binary_Read_bytes :: "reader \<Rightarrow> nat \<Rightarrow> failure + (uint8 list \<times> reader)" where
  "binary_Read_bytes r n =
     (case ReadFull r n of Inl e \<Rightarrow> Inl (Err e) | Inr (bs, r') \<Rightarrow> Inr (bs, r'))"

text \<open>
  An \<^verbatim>\<open>io.Writer\<close> is the bytes it has accepted together with the room it has
  left: \<open>None\<close> is a sink that never fails (a \<^verbatim>\<open>bytes.Buffer\<close>), \<open>Some n\<close> a sink
  that accepts \<open>n\<close> more bytes and then reports a short write. A Go method returns its
  error and leaves the writer changed; the model returns both.
\<close>

datatype writer = Writer (written: "uint8 list") (room: "nat option")

definition writer_Write :: "writer \<Rightarrow> uint8 list \<Rightarrow> error option \<times> writer" where
  "writer_Write w p =
     (case room w of
        None \<Rightarrow> (None, Writer (written w @ p) None)
      | Some n \<Rightarrow>
          (if length p \<le> n then (None, Writer (written w @ p) (Some (n - length p)))
           else (Some ErrShortWrite, Writer (written w @ take n p) (Some 0))))"

text \<open>\<^verbatim>\<open>binary.Write\<close> encodes its argument and hands the bytes to the writer in one call.\<close>

definition binary_Write :: "writer \<Rightarrow> uint8 list \<Rightarrow> error option \<times> writer" where
  "binary_Write w bs = writer_Write w bs"

text \<open>
  The slice expression \<^verbatim>\<open>data[:hi]\<close> on a slice whose capacity is its length
  (as \<^verbatim>\<open>make([]byte, n)\<close> gives): a run-time panic unless \<open>0 \<le> hi \<le> len(data)\<close>.
\<close>

definition slice_to :: "'a list \<Rightarrow> int \<Rightarrow> failure + 'a list" where
  "slice_to xs hi =
     (if 0 \<le> hi \<and> hi \<le> int (length xs) then Inr (take (nat hi) xs)
      else Inl (Panic SliceBoundsOutOfRange))"

subsection \<open>Frame header\<close>

record FrameHeader =
  Length :: uint32
  Type :: uint8
  Flags :: uint8
  StreamId :: uint32

definition NewFrameHeader :: "uint32 \<Rightarrow> uint8 \<Rightarrow> uint8 \<Rightarrow> uint32 \<Rightarrow> FrameHeader" where
  "NewFrameHeader len types flags streamid =
     \<lparr>Length = len, Type = types, Flags = flags, StreamId = streamid\<rparr>"

text \<open>
  \<^verbatim>\<open>binary.Read\<close> and \<^verbatim>\<open>binary.Write\<close> on the struct take its fields in
  declaration order, each at the size of its Go type: four bytes for
  \<^verbatim>\<open>Length\<close>, one for \<^verbatim>\<open>Type\<close>, one for \<^verbatim>\<open>Flags\<close>, four for
  \<^verbatim>\<open>StreamId\<close>. The struct is read with a single \<^verbatim>\<open>io.ReadFull\<close>.
\<close>

definition FrameHeader_Read ::
  "'a FrameHeader_scheme \<Rightarrow> reader \<Rightarrow> failure + ('a FrameHeader_scheme \<times> reader)" where
  "FrameHeader_Read fh r =
     (case ReadFull r (4 + 1 + 1 + 4) of
        Inl e \<Rightarrow> Inl (Err e)
      | Inr (bs, r') \<Rightarrow>
          Inr (fh\<lparr>Length := Uint32 (take 4 bs), Type := bs ! 4, Flags := bs ! 5,
                  StreamId := Uint32 (drop 6 bs)\<rparr>, r'))"

definition FrameHeader_bytes :: "'a FrameHeader_scheme \<Rightarrow> uint8 list" where
  "FrameHeader_bytes fh =
     PutUint32 (Length fh) @ [Type fh] @ [Flags fh] @ PutUint32 (StreamId fh)"

definition FrameHeader_Write :: "'a FrameHeader_scheme \<Rightarrow> writer \<Rightarrow> error option \<times> writer" where
  "FrameHeader_Write fh w = binary_Write w (FrameHeader_bytes fh)"

subsection \<open>DATA\<close>

record DataFrame = FrameHeader +
  Data :: "uint8 list"

definition NewDataFrame :: "uint8 \<Rightarrow> uint32 \<Rightarrow> DataFrame" where
  "NewDataFrame flags streamId =
     FrameHeader.extend (NewFrameHeader 0 DataFrameType flags streamId) (DataFrame.fields [])"

text \<open>
  The pad length read inside the branch is a new variable of the branch; the slice
  expression of the last statement uses the outer \<^verbatim>\<open>padLen\<close>, which is still zero.
\<close>

definition DataFrame_Read :: "DataFrame \<Rightarrow> reader \<Rightarrow> failure + (DataFrame \<times> reader)" where
  "DataFrame_Read frame r =
     (let padLen = (0 :: uint16); frameLen = Length frame in
      case (if Flags frame AND PADDED = 1
            then (case binary_Read_uint8 r of
                    Inl e \<Rightarrow> Inl e
                  | Inr (padLen', r') \<Rightarrow> Inr (frameLen - 1, r'))
            else Inr (frameLen, r)) of
        Inl e \<Rightarrow> Inl e
      | Inr (frameLen, r) \<Rightarrow>
          (case binary_Read_bytes r (unat frameLen) of
             Inl e \<Rightarrow> Inl e
           | Inr (data, r) \<Rightarrow>
               (case slice_to data (int (length data) - uint padLen) of
                  Inl e \<Rightarrow> Inl e
                | Inr d \<Rightarrow> Inr (frame\<lparr>Data := d\<rparr>, r))))"

definition DataFrame_Write :: "DataFrame \<Rightarrow> writer \<Rightarrow> error option \<times> writer" where
  "DataFrame_Write frame w =
     (case FrameHeader_Write frame w of
        (Some err, w) \<Rightarrow> (Some err, w)
      | (None, w) \<Rightarrow> binary_Write w (Data frame))"

subsection \<open>HEADERS\<close>

text \<open>
  \<^verbatim>\<open>Headers\<close> is an \<^verbatim>\<open>http.Header\<close>, a map from a name to its values. Neither
  \<^verbatim>\<open>Read\<close> nor \<^verbatim>\<open>Write\<close> touches it; it is kept as the list of its entries.
\<close>

record HeadersFrame = FrameHeader +
  Priority :: uint32
  HeaderBlock :: "uint8 list"
  Headers :: "(string \<times> string list) list"

definition NewHeadersFrame :: "uint8 \<Rightarrow> uint32 \<Rightarrow> HeadersFrame" where
  "NewHeadersFrame flags streamId =
     FrameHeader.extend (NewFrameHeader 0 HeadersFrameType flags streamId)
       (HeadersFrame.fields 0 [] [])"

definition HeadersFrame_Read ::
  "HeadersFrame \<Rightarrow> reader \<Rightarrow> failure + (HeadersFrame \<times> reader)" where
  "HeadersFrame_Read frame r =
     (let padLen = (0 :: uint16); frameLen = Length frame in
      case (if Flags frame AND PADDED = PADDED
            then (case binary_Read_uint8 r of
                    Inl e \<Rightarrow> Inl e
                  | Inr (padding, r') \<Rightarrow> Inr (ucast padding :: uint16, frameLen - 1, r'))
            else Inr (padLen, frameLen, r)) of
        Inl e \<Rightarrow> Inl e
      | Inr (padLen, frameLen, r) \<Rightarrow>
          (case (if Flags frame AND PRIORITY = PRIORITY
                 then (case binary_Read_uint32 r of
                         Inl e \<Rightarrow> Inl e
                       | Inr (p, r') \<Rightarrow> Inr (frame\<lparr>Priority := p\<rparr>, frameLen - 4, r'))
                 else Inr (frame, frameLen, r)) of
             Inl e \<Rightarrow> Inl e
           | Inr (frame, frameLen, r) \<Rightarrow>
               (case binary_Read_bytes r (unat frameLen) of
                  Inl e \<Rightarrow> Inl e
                | Inr (data, r) \<Rightarrow>
                    (case slice_to data (int (length data) - uint padLen) of
                       Inl e \<Rightarrow> Inl e
                     | Inr d \<Rightarrow> Inr (frame\<lparr>HeaderBlock := d\<rparr>, r)))))"

definition HeadersFrame_Write :: "HeadersFrame \<Rightarrow> writer \<Rightarrow> error option \<times> writer" where
  "HeadersFrame_Write frame w =
     (case FrameHeader_Write frame w of
        (Some err, w) \<Rightarrow> (Some err, w)
      | (None, w) \<Rightarrow>
          (case (if Flags frame AND PRIORITY = PRIORITY
                 then binary_Write w (PutUint32 (Priority frame))
                 else (None, w)) of
             (Some err, w) \<Rightarrow> (Some err, w)
           | (None, w) \<Rightarrow> binary_Write w (HeaderBlock frame)))"

subsection \<open>RST_STREAM\<close>

record RstStreamFrame = FrameHeader +
  ErrorCode :: ErrorCode

definition NewRstStreamFrame :: "ErrorCode \<Rightarrow> uint32 \<Rightarrow> RstStreamFrame" where
  "NewRstStreamFrame errorCode streamId =
     FrameHeader.extend (NewFrameHeader 4 RstStreamFrameType 0 streamId)
       (RstStreamFrame.fields errorCode)"

definition RstStreamFrame_Read ::
  "RstStreamFrame \<Rightarrow> reader \<Rightarrow> failure + (RstStreamFrame \<times> reader)" where
  "RstStreamFrame_Read frame r =
     (case binary_Read_uint32 r of
        Inl e \<Rightarrow> Inl e
      | Inr (c, r') \<Rightarrow> Inr (frame\<lparr>RstStreamFrame.ErrorCode := c\<rparr>, r'))"

text \<open>The error of the header's write is dropped; the error code is written after it in any case.\<close>

definition RstStreamFrame_Write :: "RstStreamFrame \<Rightarrow> writer \<Rightarrow> error option \<times> writer" where
  "RstStreamFrame_Write frame w =
     (case FrameHeader_Write frame w of
        (_, w) \<Rightarrow> binary_Write w (PutUint32 (RstStreamFrame.ErrorCode frame)))"

subsection \<open>SETTINGS\<close>

definition DEFAULT_WINDOW_SIZE :: uint32 where "DEFAULT_WINDOW_SIZE = 65535"

type_synonym SettingsId = uint8

definition SETTINGS_HEADER_TABLE_SIZE :: SettingsId where "SETTINGS_HEADER_TABLE_SIZE = 1"
definition SETTINGS_ENABLE_PUSH :: SettingsId where "SETTINGS_ENABLE_PUSH = 2"
definition SETTINGS_MAX_CONCURRENT_STREAMS :: SettingsId where "SETTINGS_MAX_CONCURRENT_STREAMS = 3"
definition SETTINGS_INITIAL_WINDOW_SIZE :: SettingsId where "SETTINGS_INITIAL_WINDOW_SIZE = 4"
definition SETTINGS_MAX_FRAME_SIZE :: SettingsId where "SETTINGS_MAX_FRAME_SIZE = 5"
definition SETTINGS_MAX_HEADER_LIST_SIZE :: SettingsId where "SETTINGS_MAX_HEADER_LIST_SIZE = 6"

record Setting =
  SettingsId :: SettingsId
  Value :: uint32

record SettingsFrame = FrameHeader +
  Settings :: "Setting list"

text \<open>
  The constructor ranges over a Go map, whose iteration order the language leaves open;
  the argument here is the map's entries in the order the loop visits them.
\<close>

definition NewSettingsFrame ::
  "uint8 \<Rightarrow> (SettingsId \<times> uint32) list \<Rightarrow> uint32 \<Rightarrow> SettingsFrame" where
  "NewSettingsFrame flags setting streamId =
     (let settings = map (\<lambda>(id, val). \<lparr>SettingsId = id, Value = val\<rparr>) setting;
          len = (of_nat (5 * length settings) :: uint32)
      in FrameHeader.extend (NewFrameHeader len SettingsFrameType flags streamId)
           (SettingsFrame.fields settings))"

text \<open>The loop of \<^verbatim>\<open>SettingsFrame.Read\<close>, counting \<open>niv\<close> down to zero.\<close>

fun SettingsFrame_Read_loop ::
  "nat \<Rightarrow> Setting list \<Rightarrow> reader \<Rightarrow> failure + (Setting list \<times> reader)" where
  "SettingsFrame_Read_loop 0 settings r = Inr (settings, r)"
| "SettingsFrame_Read_loop (Suc niv) settings r =
     (case binary_Read_uint8 r of
        Inl e \<Rightarrow> Inl e
      | Inr (i, r) \<Rightarrow>
          (case binary_Read_uint32 r of
             Inl e \<Rightarrow> Inl e
           | Inr (v, r) \<Rightarrow>
               SettingsFrame_Read_loop niv (settings @ [\<lparr>SettingsId = i, Value = v\<rparr>]) r))"

definition SettingsFrame_Read ::
  "SettingsFrame \<Rightarrow> reader \<Rightarrow> failure + (SettingsFrame \<times> reader)" where
  "SettingsFrame_Read frame r =
     (case SettingsFrame_Read_loop (unat (Length frame div 5)) (Settings frame) r of
        Inl e \<Rightarrow> Inl e
      | Inr (settings, r') \<Rightarrow> Inr (frame\<lparr>Settings := settings\<rparr>, r'))"

fun SettingsFrame_Write_loop :: "Setting list \<Rightarrow> writer \<Rightarrow> error option \<times> writer" where
  "SettingsFrame_Write_loop [] w = (None, w)"
| "SettingsFrame_Write_loop (setting # settings) w =
     (case binary_Write w [SettingsId setting] of
        (Some err, w) \<Rightarrow> (Some err, w)
      | (None, w) \<Rightarrow>
          (case binary_Write w (PutUint32 (Value setting)) of
             (Some err, w) \<Rightarrow> (Some err, w)
           | (None, w) \<Rightarrow> SettingsFrame_Write_loop settings w))"

definition SettingsFrame_Write :: "SettingsFrame \<Rightarrow> writer \<Rightarrow> error option \<times> writer" where
  "SettingsFrame_Write frame w =
     (case FrameHeader_Write frame w of
        (_, w) \<Rightarrow> SettingsFrame_Write_loop (Settings frame) w)"

subsection \<open>GOAWAY\<close>

record GoAwayFrame = FrameHeader +
  LastStreamID :: uint32
  ErrorCode :: ErrorCode
  AdditionalDebugData :: "uint8 list"

definition NewGoAwayFrame :: "uint32 \<Rightarrow> ErrorCode \<Rightarrow> uint32 \<Rightarrow> GoAwayFrame" where
  "NewGoAwayFrame lastStreamId errorCode streamId =
     FrameHeader.extend (NewFrameHeader 8 GoAwayFrameType 0 streamId)
       (GoAwayFrame.fields lastStreamId errorCode [])"

text \<open>
  The third read fills the slice the frame already holds, to that slice's length: a
  frame whose debug data is nil reads no byte there.
\<close>

definition GoAwayFrame_Read ::
  "GoAwayFrame \<Rightarrow> reader \<Rightarrow> failure + (GoAwayFrame \<times> reader)" where
  "GoAwayFrame_Read frame r =
     (case binary_Read_uint32 r of
        Inl e \<Rightarrow> Inl e
      | Inr (l, r) \<Rightarrow>
          (case binary_Read_uint32 r of
             Inl e \<Rightarrow> Inl e
           | Inr (c, r) \<Rightarrow>
               (case binary_Read_bytes r (length (AdditionalDebugData frame)) of
                  Inl e \<Rightarrow> Inl e
                | Inr (d, r) \<Rightarrow>
                    Inr (frame\<lparr>LastStreamID := l, GoAwayFrame.ErrorCode := c,
                                AdditionalDebugData := d\<rparr>, r))))"

definition GoAwayFrame_Write :: "GoAwayFrame \<Rightarrow> writer \<Rightarrow> error option \<times> writer" where
  "GoAwayFrame_Write frame w =
     (case FrameHeader_Write frame w of
        (_, w) \<Rightarrow>
          (case binary_Write w (PutUint32 (LastStreamID frame)) of
             (Some err, w) \<Rightarrow> (Some err, w)
           | (None, w) \<Rightarrow>
               (case binary_Write w (PutUint32 (GoAwayFrame.ErrorCode frame)) of
                  (Some err, w) \<Rightarrow> (Some err, w)
                | (None, w) \<Rightarrow> binary_Write w (AdditionalDebugData frame))))"

subsection \<open>WINDOW_UPDATE\<close>

record WindowUpdateFrame = FrameHeader +
  WindowSizeIncrement :: uint32

definition NewWindowUpdateFrame :: "uint32 \<Rightarrow> uint32 \<Rightarrow> WindowUpdateFrame" where
  "NewWindowUpdateFrame incrementSize streamId =
     FrameHeader.extend (NewFrameHeader 4 WindowUpdateFrameType 0 streamId)
       (WindowUpdateFrame.fields incrementSize)"

definition WindowUpdateFrame_Read ::
  "WindowUpdateFrame \<Rightarrow> reader \<Rightarrow> failure + (WindowUpdateFrame \<times> reader)" where
  "WindowUpdateFrame_Read frame r =
     (case binary_Read_uint32 r of
        Inl e \<Rightarrow> Inl e
      | Inr (i, r') \<Rightarrow> Inr (frame\<lparr>WindowSizeIncrement := i\<rparr>, r'))"

definition WindowUpdateFrame_Write ::
  "WindowUpdateFrame \<Rightarrow> writer \<Rightarrow> error option \<times> writer" where
  "WindowUpdateFrame_Write frame w =
     (case FrameHeader_Write frame w of
        (Some err, w) \<Rightarrow> (Some err, w)
      | (None, w) \<Rightarrow> binary_Write w (PutUint32 (WindowSizeIncrement frame)))"

subsection \<open>The interface \<^verbatim>\<open>Frame\<close>\<close>

text \<open>
  The six struct types with \<^verbatim>\<open>Write\<close>, \<^verbatim>\<open>Read\<close> and \<^verbatim>\<open>Header\<close> methods are
  the values of the interface; a method call on an interface value runs the method of
  the struct it holds.
\<close>

datatype Frame =
    Data_Frame DataFrame
  | Headers_Frame HeadersFrame
  | RstStream_Frame RstStreamFrame
  | Settings_Frame SettingsFrame
  | GoAway_Frame GoAwayFrame
  | WindowUpdate_Frame WindowUpdateFrame

fun Frame_Write :: "Frame \<Rightarrow> writer \<Rightarrow> error option \<times> writer" where
  "Frame_Write (Data_Frame f) w = DataFrame_Write f w"
| "Frame_Write (Headers_Frame f) w = HeadersFrame_Write f w"
| "Frame_Write (RstStream_Frame f) w = RstStreamFrame_Write f w"
| "Frame_Write (Settings_Frame f) w = SettingsFrame_Write f w"
| "Frame_Write (GoAway_Frame f) w = GoAwayFrame_Write f w"
| "Frame_Write (WindowUpdate_Frame f) w = WindowUpdateFrame_Write f w"

definition lift_Read ::
  "('f \<Rightarrow> Frame) \<Rightarrow> failure + ('f \<times> reader) \<Rightarrow> failure + (Frame \<times> reader)" where
  "lift_Read C res = (case res of Inl e \<Rightarrow> Inl e | Inr (f, r) \<Rightarrow> Inr (C f, r))"

fun Frame_Read :: "Frame \<Rightarrow> reader \<Rightarrow> failure + (Frame \<times> reader)" where
  "Frame_Read (Data_Frame f) r = lift_Read Data_Frame (DataFrame_Read f r)"
| "Frame_Read (Headers_Frame f) r = lift_Read Headers_Frame (HeadersFrame_Read f r)"
| "Frame_Read (RstStream_Frame f) r = lift_Read RstStream_Frame (RstStreamFrame_Read f r)"
| "Frame_Read (Settings_Frame f) r = lift_Read Settings_Frame (SettingsFrame_Read f r)"
| "Frame_Read (GoAway_Frame f) r = lift_Read GoAway_Frame (GoAwayFrame_Read f r)"
| "Frame_Read (WindowUpdate_Frame f) r = lift_Read WindowUpdate_Frame (WindowUpdateFrame_Read f r)"

fun Frame_Header :: "Frame \<Rightarrow> FrameHeader" where
  "Frame_Header (Data_Frame f) = FrameHeader.truncate f"
| "Frame_Header (Headers_Frame f) = FrameHeader.truncate f"
| "Frame_Header (RstStream_Frame f) = FrameHeader.truncate f"
| "Frame_Header (Settings_Frame f) = FrameHeader.truncate f"
| "Frame_Header (GoAway_Frame f) = FrameHeader.truncate f"
| "Frame_Header (WindowUpdate_Frame f) = FrameHeader.truncate f"

subsection \<open>A frame on the wire\<close>

text \<open>
  The bytes a frame's \<^verbatim>\<open>Write\<close> leaves in an empty buffer.
\<close>

definition encode :: "Frame \<Rightarrow> uint8 list" where
  "encode f = written (snd (Frame_Write f (Writer [] None)))"

text \<open>
  The package has no function that reads a whole frame. A receiver reads a header into
  a new \<^verbatim>\<open>FrameHeader\<close>, allocates the struct that the header's type names, with
  the header embedded and every other field at its zero value, and calls that struct's
  \<^verbatim>\<open>Read\<close>. For a type code that none of the six structs carries there is nothing
  to allocate.
\<close>

definition alloc_Frame :: "FrameHeader \<Rightarrow> Frame option" where
  "alloc_Frame fh =
     (if Type fh = DataFrameType
        then Some (Data_Frame (FrameHeader.extend fh (DataFrame.fields [])))
      else if Type fh = HeadersFrameType
        then Some (Headers_Frame (FrameHeader.extend fh (HeadersFrame.fields 0 [] [])))
      else if Type fh = RstStreamFrameType
        then Some (RstStream_Frame (FrameHeader.extend fh (RstStreamFrame.fields 0)))
      else if Type fh = SettingsFrameType
        then Some (Settings_Frame (FrameHeader.extend fh (SettingsFrame.fields [])))
      else if Type fh = GoAwayFrameType
        then Some (GoAway_Frame (FrameHeader.extend fh (GoAwayFrame.fields 0 0 [])))
      else if Type fh = WindowUpdateFrameType
        then Some (WindowUpdate_Frame (FrameHeader.extend fh (WindowUpdateFrame.fields 0)))
      else None)"

definition decode :: "reader \<Rightarrow> (failure + (Frame \<times> reader)) option" where
  "decode r =
     (case FrameHeader_Read (NewFrameHeader 0 0 0 0) r of
        Inl e \<Rightarrow> Some (Inl e)
      | Inr (fh, r') \<Rightarrow>
          (case alloc_Frame fh of
             None \<Rightarrow> None
           | Some frame \<Rightarrow> Some (Frame_Read frame r')))"

text \<open>
  The frames whose stored fields and whose bytes on the wire determine each other: the
  header's type names the struct, the stored length is the number of payload bytes the
  struct's \<^verbatim>\<open>Read\<close> takes, and a field that \<^verbatim>\<open>Write\<close> does not emit is at its
  zero value. Frames with the flag \<^verbatim>\<open>PADDED\<close>, whose padding no \<^verbatim>\<open>Write\<close>
  emits, are left out.
\<close>

fun wire_exact :: "Frame \<Rightarrow> bool" where
  "wire_exact (Data_Frame f) \<longleftrightarrow>
     Type f = DataFrameType \<and> Flags f AND PADDED \<noteq> PADDED \<and>
     unat (Length f) = length (Data f)"
| "wire_exact (Headers_Frame f) \<longleftrightarrow>
     Type f = HeadersFrameType \<and> Flags f AND PADDED \<noteq> PADDED \<and> Headers f = [] \<and>
     (if Flags f AND PRIORITY = PRIORITY
      then unat (Length f) = 4 + length (HeaderBlock f)
      else unat (Length f) = length (HeaderBlock f) \<and> Priority f = 0)"
| "wire_exact (RstStream_Frame f) \<longleftrightarrow> Type f = RstStreamFrameType"
| "wire_exact (Settings_Frame f) \<longleftrightarrow>
     Type f = SettingsFrameType \<and> unat (Length f) = 5 * length (Settings f)"
| "wire_exact (GoAway_Frame f) \<longleftrightarrow>
     Type f = GoAwayFrameType \<and> AdditionalDebugData f = []"
| "wire_exact (WindowUpdate_Frame f) \<longleftrightarrow> Type f = WindowUpdateFrameType"

section \<open>Properties\<close>

subsection \<open>Byte order, readers and writers\<close>

lemma Uint32_PutUint32_append: "Uint32 (PutUint32 v @ rest) = v"
proof (rule bit_word_eqI)
  fix n assume n: "n < LENGTH(32)"
  have idx: "(PutUint32 v @ rest) ! 0 = ucast (drop_bit 24 v)"
    "(PutUint32 v @ rest) ! 1 = ucast (drop_bit 16 v)"
    "(PutUint32 v @ rest) ! 2 = ucast (drop_bit 8 v)"
    "(PutUint32 v @ rest) ! 3 = ucast v"
    by (simp_all add: PutUint32_def)
  consider "n < 8" | "8 \<le> n" "n < 16" | "16 \<le> n" "n < 24" | "24 \<le> n" "n < 32"
    using n by fastforce
  then show "bit (Uint32 (PutUint32 v @ rest)) n = bit v n"
  proof cases
    case 1 then show ?thesis unfolding Uint32_def idx by (simp add: bit_simps)
  next
    case 2 then show ?thesis unfolding Uint32_def idx by (auto simp add: bit_simps)
  next
    case 3 then show ?thesis unfolding Uint32_def idx by (auto simp add: bit_simps)
  next
    case 4 then show ?thesis unfolding Uint32_def idx by (auto simp add: bit_simps)
  qed
qed

lemma Uint32_PutUint32: "Uint32 (PutUint32 v) = v"
  using Uint32_PutUint32_append [of v "[]"] by simp

lemma length_PutUint32: "length (PutUint32 v) = 4"
  by (simp add: PutUint32_def)

lemma uint32_top_bit: "unat (w :: uint32) < 2 ^ 31 \<longleftrightarrow> \<not> bit w 31"
proof -
  have "bit (unat w) 31 \<longleftrightarrow> bit w 31"
    by (simp add: bit_unsigned_iff)
  moreover have "bit (unat w) 31 \<longleftrightarrow> odd (unat w div 2 ^ 31)"
    by (rule bit_iff_odd)
  ultimately have b: "bit w 31 \<longleftrightarrow> odd (unat w div 2 ^ 31)"
    by blast
  have lt: "unat w < 2 ^ 32"
    using unsigned_less [of w, where ?'a = nat] by simp
  show ?thesis
  proof (cases "unat w < 2 ^ 31")
    case True
    then show ?thesis by (simp add: b)
  next
    case False
    then have "unat w div 2 ^ 31 = 1"
      using lt by (simp add: div_nat_eqI)
    with False show ?thesis by (simp add: b)
  qed
qed

lemma Uint32_top_bit: "bit (Uint32 [s0, s1, s2, s3]) 31 \<longleftrightarrow> bit s0 7"
  by (auto simp add: Uint32_def bit_simps dest: bit_imp_le_length)

lemma unat_uint32_minus_1: "unat (- 1 :: uint32) = 4294967295"
  by (simp add: unsigned_minus_1_eq_mask mask_eq_exp_minus_1)

lemma unat_div_5: "unat (x :: uint32) = 5 * n \<Longrightarrow> unat (x div 5) = n"
  by (simp add: unat_div)

lemma unat_sub_4: "unat (x :: uint32) = 4 + n \<Longrightarrow> unat (x - 4) = n"
  by (simp add: unat_sub_if' split: if_splits)

lemma PADDED_never_1: "(x :: uint8) AND PADDED \<noteq> 1"
proof
  assume "x AND PADDED = 1"
  then have "bit (x AND PADDED) 0 = bit (1 :: uint8) 0" by simp
  then show False by (simp add: PADDED_def bit_simps)
qed

lemma ReadFull_append: "ReadFull (xs @ r) (length xs) = Inr (xs, r)"
  by (simp add: ReadFull_def)

lemma binary_Read_uint8_Cons: "binary_Read_uint8 (b # r) = Inr (b, r)"
  by (simp add: binary_Read_uint8_def ReadFull_def)

lemma binary_Read_uint32_PutUint32: "binary_Read_uint32 (PutUint32 v @ r) = Inr (v, r)"
  using ReadFull_append [of "PutUint32 v" r]
  by (simp add: binary_Read_uint32_def length_PutUint32 Uint32_PutUint32)

lemma binary_Read_bytes_append: "binary_Read_bytes (xs @ r) (length xs) = Inr (xs, r)"
  by (simp add: binary_Read_bytes_def ReadFull_append)

lemma binary_Write_buffer: "binary_Write (Writer bs None) p = (None, Writer (bs @ p) None)"
  by (simp add: binary_Write_def writer_Write_def)

lemmas FrameType_defs = DataFrameType_def HeadersFrameType_def RstStreamFrameType_def
  SettingsFrameType_def GoAwayFrameType_def WindowUpdateFrameType_def

lemmas New_defs = NewFrameHeader_def NewDataFrame_def NewHeadersFrame_def NewRstStreamFrame_def
  NewSettingsFrame_def NewGoAwayFrame_def NewWindowUpdateFrame_def
  FrameHeader.defs DataFrame.defs HeadersFrame.defs RstStreamFrame.defs SettingsFrame.defs
  GoAwayFrame.defs WindowUpdateFrame.defs

subsection \<open>The header on the wire\<close>

text \<open>Every header is written as ten bytes, and read back as it was written.\<close>

lemma length_FrameHeader_bytes: "length (FrameHeader_bytes fh) = 10"
  by (simp add: FrameHeader_bytes_def length_PutUint32)

lemma FrameHeader_Write_buffer:
  "FrameHeader_Write fh (Writer bs None) = (None, Writer (bs @ FrameHeader_bytes fh) None)"
  by (simp add: FrameHeader_Write_def binary_Write_buffer)

lemma FrameHeader_bytes_truncate:
  "FrameHeader_bytes (FrameHeader.truncate f) = FrameHeader_bytes f"
  by (simp add: FrameHeader_bytes_def FrameHeader.truncate_def)

lemma FrameHeader_Read_bytes:
  "FrameHeader_Read fh (FrameHeader_bytes h @ r) =
     Inr (fh\<lparr>Length := Length h, Type := Type h, Flags := Flags h, StreamId := StreamId h\<rparr>, r)"
proof -
  have rf: "ReadFull (FrameHeader_bytes h @ r) (4 + 1 + 1 + 4) = Inr (FrameHeader_bytes h, r)"
    using ReadFull_append [of "FrameHeader_bytes h" r] by (simp add: length_FrameHeader_bytes)
  have l: "Uint32 (take 4 (FrameHeader_bytes h)) = Length h"
    by (simp add: FrameHeader_bytes_def length_PutUint32 Uint32_PutUint32)
  have s: "Uint32 (drop 6 (FrameHeader_bytes h)) = StreamId h"
    by (simp add: FrameHeader_bytes_def length_PutUint32 Uint32_PutUint32)
  have t: "FrameHeader_bytes h ! 4 = Type h" "FrameHeader_bytes h ! 5 = Flags h"
    by (simp_all add: FrameHeader_bytes_def nth_append length_PutUint32)
  show ?thesis
    unfolding FrameHeader_Read_def rf by (simp add: l s t)
qed

lemma FrameHeader_Read_truncate:
  "FrameHeader_Read (fh :: FrameHeader) (FrameHeader_bytes h @ r) = Inr (FrameHeader.truncate h, r)"
  by (simp add: FrameHeader_Read_bytes FrameHeader.truncate_def)

subsection \<open>What each \<^verbatim>\<open>Write\<close> leaves in a buffer\<close>

lemma DataFrame_Write_buffer:
  "DataFrame_Write f (Writer bs None) = (None, Writer (bs @ FrameHeader_bytes f @ Data f) None)"
  by (simp add: DataFrame_Write_def FrameHeader_Write_buffer binary_Write_buffer)

lemma HeadersFrame_Write_buffer:
  "HeadersFrame_Write f (Writer bs None) =
     (None, Writer (bs @ FrameHeader_bytes f @
        (if Flags f AND PRIORITY = PRIORITY then PutUint32 (Priority f) else []) @
        HeaderBlock f) None)"
  by (simp add: HeadersFrame_Write_def FrameHeader_Write_buffer binary_Write_buffer)

lemma RstStreamFrame_Write_buffer:
  "RstStreamFrame_Write f (Writer bs None) =
     (None, Writer (bs @ FrameHeader_bytes f @ PutUint32 (RstStreamFrame.ErrorCode f)) None)"
  by (simp add: RstStreamFrame_Write_def FrameHeader_Write_buffer binary_Write_buffer)

lemma SettingsFrame_Write_loop_buffer:
  "SettingsFrame_Write_loop ss (Writer bs None) =
     (None, Writer (bs @ concat (map (\<lambda>s. SettingsId s # PutUint32 (Value s)) ss)) None)"
  by (induction ss arbitrary: bs) (simp_all add: binary_Write_buffer)

lemma SettingsFrame_Write_buffer:
  "SettingsFrame_Write f (Writer bs None) =
     (None, Writer (bs @ FrameHeader_bytes f @
        concat (map (\<lambda>s. SettingsId s # PutUint32 (Value s)) (Settings f))) None)"
  by (simp add: SettingsFrame_Write_def FrameHeader_Write_buffer SettingsFrame_Write_loop_buffer)

lemma GoAwayFrame_Write_buffer:
  "GoAwayFrame_Write f (Writer bs None) =
     (None, Writer (bs @ FrameHeader_bytes f @ PutUint32 (LastStreamID f) @
        PutUint32 (GoAwayFrame.ErrorCode f) @ AdditionalDebugData f) None)"
  by (simp add: GoAwayFrame_Write_def FrameHeader_Write_buffer binary_Write_buffer)

lemma WindowUpdateFrame_Write_buffer:
  "WindowUpdateFrame_Write f (Writer bs None) =
     (None, Writer (bs @ FrameHeader_bytes f @ PutUint32 (WindowSizeIncrement f)) None)"
  by (simp add: WindowUpdateFrame_Write_def FrameHeader_Write_buffer binary_Write_buffer)

lemmas Write_buffer = DataFrame_Write_buffer HeadersFrame_Write_buffer
  RstStreamFrame_Write_buffer SettingsFrame_Write_buffer GoAwayFrame_Write_buffer
  WindowUpdateFrame_Write_buffer

subsection \<open>What each \<^verbatim>\<open>Read\<close> takes from a reader\<close>

text \<open>
  The branch of \<^verbatim>\<open>DataFrame.Read\<close> that reads a pad length is never entered: the
  flags masked with \<^verbatim>\<open>PADDED\<close> are 0 or 8, never 1.
\<close>

lemma DataFrame_Read_unpadded:
  "DataFrame_Read frame r =
     (case binary_Read_bytes r (unat (Length frame)) of
        Inl e \<Rightarrow> Inl e
      | Inr (data, r') \<Rightarrow> Inr (frame\<lparr>Data := data\<rparr>, r'))"
  by (simp add: DataFrame_Read_def Let_def PADDED_never_1 slice_to_def binary_Read_bytes_def
      ReadFull_def split: sum.splits)

lemma HeadersFrame_Read_unpadded:
  "Flags frame AND PADDED \<noteq> PADDED \<Longrightarrow>
   HeadersFrame_Read frame r =
     (case (if Flags frame AND PRIORITY = PRIORITY
            then (case binary_Read_uint32 r of
                    Inl e \<Rightarrow> Inl e
                  | Inr (p, r') \<Rightarrow> Inr (frame\<lparr>Priority := p\<rparr>, Length frame - 4, r'))
            else Inr (frame, Length frame, r)) of
        Inl e \<Rightarrow> Inl e
      | Inr (frame, frameLen, r) \<Rightarrow>
          (case binary_Read_bytes r (unat frameLen) of
             Inl e \<Rightarrow> Inl e
           | Inr (data, r) \<Rightarrow> Inr (frame\<lparr>HeaderBlock := data\<rparr>, r)))"
  by (simp add: HeadersFrame_Read_def Let_def slice_to_def binary_Read_bytes_def ReadFull_def
      split: sum.splits)

text \<open>
  A padded HEADERS frame without priority whose pad length exceeds what is left of the
  payload: the slice expression panics.
\<close>

lemma HeadersFrame_Read_padding_too_long:
  assumes "Flags frame AND PADDED = PADDED" and "Flags frame AND PRIORITY \<noteq> PRIORITY"
    and "unat (Length frame - 1) \<le> length r" and "unat (Length frame - 1) < unat p"
  shows "HeadersFrame_Read frame (p # r) = Inl (Panic SliceBoundsOutOfRange)"
proof -
  have u: "uint (ucast p :: uint16) = int (unat p)"
    by (simp add: uint_up_ucast is_up)
  have "uint p = int (unat p)" and "uint (Length frame - 1) = int (unat (Length frame - 1))"
    by (rule uint_nat)+
  with assms(4) have gt: "\<not> uint p \<le> uint (Length frame - 1)"
    by linarith
  show ?thesis
    using assms gt
    by (simp add: HeadersFrame_Read_def Let_def binary_Read_uint8_Cons binary_Read_bytes_def
        ReadFull_def slice_to_def u)
qed

text \<open>Every pass of the SETTINGS loop takes five bytes and adds one entry.\<close>

lemma SettingsFrame_Read_loop_consumes:
  "SettingsFrame_Read_loop niv acc r = Inr (ss, r') \<Longrightarrow>
     length r = 5 * niv + length r' \<and> length ss = length acc + niv"
proof (induction niv arbitrary: acc r)
  case 0
  then show ?case by simp
next
  case (Suc niv)
  from Suc.prems obtain i r1 v r2 where
    1: "binary_Read_uint8 r = Inr (i, r1)" and 2: "binary_Read_uint32 r1 = Inr (v, r2)" and
    3: "SettingsFrame_Read_loop niv (acc @ [\<lparr>SettingsId = i, Value = v\<rparr>]) r2 = Inr (ss, r')"
    by (auto split: sum.splits)
  from 1 have "length r = 1 + length r1"
    by (auto simp: binary_Read_uint8_def ReadFull_def split: if_splits)
  moreover from 2 have "length r1 = 4 + length r2"
    by (auto simp: binary_Read_uint32_def ReadFull_def split: if_splits)
  ultimately show ?case
    using Suc.IH [OF 3] by simp
qed

lemma SettingsFrame_Read_loop_bytes:
  "SettingsFrame_Read_loop (length ss) acc
     (concat (map (\<lambda>s. SettingsId s # PutUint32 (Value s)) ss) @ r) = Inr (acc @ ss, r)"
  by (induction ss arbitrary: acc)
     (simp_all add: binary_Read_uint8_Cons binary_Read_uint32_PutUint32)

subsection \<open>Frame names\<close>

lemma length_FrameName_names: "length FrameName_names = 10"
  by (simp add: FrameName_names_def)

text \<open>
  Claim C10. \<^verbatim>\<open>FrameName\<close> indexes its table of ten names with the raw type code:
  it returns a name exactly for the codes 0 to 9, and for every code from 10 on the
  index is out of range, so the call panics and returns no name.
\<close>

theorem FrameName_defined_upto_9:
  "((\<exists>s. FrameName i = Inr s) \<longleftrightarrow> unat i \<le> 9) \<and>
   (10 \<le> unat i \<longrightarrow> FrameName i = Inl (Panic IndexOutOfRange)) \<and>
   (unat i \<le> 9 \<longrightarrow> FrameName i = Inr (FrameName_names ! unat i))"
  by (auto simp: FrameName_def index_def length_FrameName_names)

text \<open>The codes 10, 9 and 0.\<close>

theorem FrameName_defined_upto_9_witness:
  "FrameName 10 = Inl (Panic IndexOutOfRange) \<and> FrameName 9 = Inr ''CONTINUATION'' \<and>
   FrameName 0 = Inr ''DATA''"
  using FrameName_defined_upto_9 [of 10] FrameName_defined_upto_9 [of 9]
    FrameName_defined_upto_9 [of 0]
  by (simp add: FrameName_names_def)

subsection \<open>Writing a header\<close>

text \<open>
  Claim C1. The claim asks for nine bytes, the length in three of them. The header of
  length 4, type RST_STREAM, no flags and stream 5 is written as ten bytes: the length
  takes four bytes, then come the type, the flags and the four bytes of the stream
  identifier.
\<close>

theorem FrameHeader_Write_ten_bytes:
  "FrameHeader_Write (NewFrameHeader 4 RstStreamFrameType 0 5) (Writer [] None) =
     (None, Writer [0, 0, 0, 4, 3, 0, 0, 0, 0, 5] None)"
  by (simp add: FrameHeader_Write_buffer FrameHeader_bytes_def PutUint32_def NewFrameHeader_def
      RstStreamFrameType_def)

subsection \<open>Reading a header\<close>

text \<open>
  Claim C5, as the code has it. Whenever \<^verbatim>\<open>FrameHeader.Read\<close> succeeds on an input
  whose consumed part ends in the four bytes \<open>s0 s1 s2 s3\<close>, the stream identifier it
  returns is that big-endian word with no bit masked off: it is below \<open>2^31\<close> exactly
  when the top bit of \<open>s0\<close> is clear. Whether the read succeeds does not depend on
  that byte, so a set reserved bit never makes it fail.
\<close>

theorem FrameHeader_Read_keeps_reserved_bit:
  assumes "FrameHeader_Read fh (pre @ [s0, s1, s2, s3] @ rest) = Inr (h, rest)"
  shows "StreamId h = Uint32 [s0, s1, s2, s3] \<and>
         (unat (StreamId h) < 2 ^ 31 \<longleftrightarrow> \<not> bit s0 7) \<and>
         (\<forall>t0. \<exists>h'. FrameHeader_Read fh (pre @ [t0, s1, s2, s3] @ rest) = Inr (h', rest))"
proof -
  let ?xs = "pre @ [s0, s1, s2, s3] @ rest"
  from assms have len: "10 \<le> length ?xs" and dr: "drop 10 ?xs = rest"
    and h: "StreamId h = Uint32 (drop 6 (take 10 ?xs))"
    by (auto simp: FrameHeader_Read_def ReadFull_def split: if_splits)
  from dr have "length (drop 10 ?xs) = length rest" by simp
  with len have pre: "length pre = 6" by simp
  from pre h have sid: "StreamId h = Uint32 [s0, s1, s2, s3]" by simp
  have top: "unat (StreamId h) < 2 ^ 31 \<longleftrightarrow> \<not> bit s0 7"
    by (simp only: sid uint32_top_bit Uint32_top_bit)
  have any: "\<exists>h'. FrameHeader_Read fh (pre @ [t0, s1, s2, s3] @ rest) = Inr (h', rest)" for t0
    using pre by (simp add: FrameHeader_Read_def ReadFull_def)
  from sid top any show ?thesis by blast
qed

text \<open>A header whose stream-identifier word is \<open>80 00 00 01\<close>.\<close>

theorem FrameHeader_Read_keeps_reserved_bit_witness:
  "FrameHeader_Read (NewFrameHeader 0 0 0 0) ([0, 0, 0, 0, 0, 0] @ [0x80, 0, 0, 1] @ []) =
     Inr (NewFrameHeader 0 0 0 0x80000001, []) \<and>
   StreamId (NewFrameHeader 0 0 0 0x80000001) = Uint32 [0x80, 0, 0, 1] \<and>
   \<not> unat (StreamId (NewFrameHeader 0 0 0 0x80000001)) < 2 ^ 31"
proof -
  have r: "FrameHeader_Read (NewFrameHeader 0 0 0 0) ([0, 0, 0, 0, 0, 0] @ [0x80, 0, 0, 1] @ []) =
     Inr (NewFrameHeader 0 0 0 0x80000001, [])"
    by (simp add: FrameHeader_Read_def ReadFull_def Uint32_def NewFrameHeader_def)
  have b: "bit (0x80 :: uint8) 7" by simp
  from FrameHeader_Read_keeps_reserved_bit [OF r] b r show ?thesis by blast
qed

text \<open>
  Against claim C5 as stated: the input with the reserved bit set is read without
  error and the identifier returned is \<open>2^31 + 1\<close>; and on an input of nine bytes the
  read fails.
\<close>

theorem FrameHeader_Read_counterexample:
  "FrameHeader_Read (NewFrameHeader 0 0 0 0) [0, 0, 0, 0, 0, 0, 0x80, 0, 0, 1] =
     Inr (NewFrameHeader 0 0 0 0x80000001, []) \<and>
   \<not> unat (StreamId (NewFrameHeader 0 0 0 0x80000001)) < 2 ^ 31 \<and>
   FrameHeader_Read (NewFrameHeader 0 0 0 0) [0, 0, 0, 0, 0, 0x80, 0, 0, 1] =
     Inl (Err ErrUnexpectedEOF)"
  by (simp add: FrameHeader_Read_def ReadFull_def Uint32_def NewFrameHeader_def)

subsection \<open>Writing and reading back a frame\<close>

lemma roundtrip_Data:
  assumes "wire_exact (Data_Frame f)"
  shows "decode (encode (Data_Frame f)) = Some (Inr (Data_Frame f, []))"
proof -
  have enc: "encode (Data_Frame f) = FrameHeader_bytes f @ Data f"
    by (simp add: encode_def DataFrame_Write_buffer)
  have al: "alloc_Frame (FrameHeader.truncate f) = Some (Data_Frame (f\<lparr>Data := []\<rparr>))"
    using assms by (simp add: alloc_Frame_def FrameHeader.defs DataFrame.defs)
  have rd: "DataFrame_Read (f\<lparr>Data := []\<rparr>) (Data f) = Inr (f, [])"
    using assms binary_Read_bytes_append [of "Data f" "[]"]
    by (simp add: DataFrame_Read_unpadded)
  show ?thesis
    unfolding decode_def enc FrameHeader_Read_truncate by (simp add: al rd lift_Read_def)
qed

lemma roundtrip_Headers:
  assumes "wire_exact (Headers_Frame f)"
  shows "decode (encode (Headers_Frame f)) = Some (Inr (Headers_Frame f, []))"
proof -
  let ?g = "f\<lparr>Priority := 0, HeaderBlock := [], Headers := []\<rparr>"
  let ?p = "(if Flags f AND PRIORITY = PRIORITY then PutUint32 (Priority f) else []) @
      HeaderBlock f"
  have enc: "encode (Headers_Frame f) = FrameHeader_bytes f @ ?p"
    by (simp add: encode_def HeadersFrame_Write_buffer)
  have al: "alloc_Frame (FrameHeader.truncate f) = Some (Headers_Frame ?g)"
    using assms by (simp add: alloc_Frame_def FrameHeader.defs HeadersFrame.defs FrameType_defs)
  have np: "Flags ?g AND PADDED \<noteq> PADDED"
    using assms by simp
  from assms have h: "Headers f = []" by simp
  have rd: "HeadersFrame_Read ?g ?p = Inr (f, [])"
  proof (cases "Flags f AND PRIORITY = PRIORITY")
    case True
    with assms have len: "unat (Length f - 4) = length (HeaderBlock f)"
      by (simp add: unat_sub_4)
    show ?thesis
      unfolding HeadersFrame_Read_unpadded [OF np]
      using True len h binary_Read_bytes_append [of "HeaderBlock f" "[]"]
      by (simp add: binary_Read_uint32_PutUint32)
  next
    case False
    with assms have len: "unat (Length f) = length (HeaderBlock f)" and p: "Priority f = 0"
      by simp_all
    show ?thesis
      unfolding HeadersFrame_Read_unpadded [OF np]
      using False len h p binary_Read_bytes_append [of "HeaderBlock f" "[]"]
      by simp
  qed
  show ?thesis
    unfolding decode_def enc FrameHeader_Read_truncate by (simp add: al rd lift_Read_def)
qed

lemma roundtrip_RstStream:
  assumes "wire_exact (RstStream_Frame f)"
  shows "decode (encode (RstStream_Frame f)) = Some (Inr (RstStream_Frame f, []))"
proof -
  let ?g = "f\<lparr>RstStreamFrame.ErrorCode := 0\<rparr>"
  have enc: "encode (RstStream_Frame f) =
      FrameHeader_bytes f @ PutUint32 (RstStreamFrame.ErrorCode f)"
    by (simp add: encode_def RstStreamFrame_Write_buffer)
  have al: "alloc_Frame (FrameHeader.truncate f) = Some (RstStream_Frame ?g)"
    using assms by (simp add: alloc_Frame_def FrameHeader.defs RstStreamFrame.defs FrameType_defs)
  have rd: "RstStreamFrame_Read ?g (PutUint32 (RstStreamFrame.ErrorCode f)) = Inr (f, [])"
    using binary_Read_uint32_PutUint32 [of "RstStreamFrame.ErrorCode f" "[]"]
    by (simp add: RstStreamFrame_Read_def)
  show ?thesis
    unfolding decode_def enc FrameHeader_Read_truncate by (simp add: al rd lift_Read_def)
qed

lemma roundtrip_Settings:
  assumes "wire_exact (Settings_Frame f)"
  shows "decode (encode (Settings_Frame f)) = Some (Inr (Settings_Frame f, []))"
proof -
  let ?p = "concat (map (\<lambda>s. SettingsId s # PutUint32 (Value s)) (Settings f))"
  have enc: "encode (Settings_Frame f) = FrameHeader_bytes f @ ?p"
    by (simp add: encode_def SettingsFrame_Write_buffer)
  have al: "alloc_Frame (FrameHeader.truncate f) = Some (Settings_Frame (f\<lparr>Settings := []\<rparr>))"
    using assms by (simp add: alloc_Frame_def FrameHeader.defs SettingsFrame.defs FrameType_defs)
  from assms have niv: "unat (Length f div 5) = length (Settings f)"
    by (simp add: unat_div_5)
  have rd: "SettingsFrame_Read (f\<lparr>Settings := []\<rparr>) ?p = Inr (f, [])"
    using SettingsFrame_Read_loop_bytes [of "Settings f" "[]" "[]"] niv
    by (simp add: SettingsFrame_Read_def)
  show ?thesis
    unfolding decode_def enc FrameHeader_Read_truncate by (simp add: al rd lift_Read_def)
qed

lemma roundtrip_GoAway:
  assumes "wire_exact (GoAway_Frame f)"
  shows "decode (encode (GoAway_Frame f)) = Some (Inr (GoAway_Frame f, []))"
proof -
  let ?p = "PutUint32 (LastStreamID f) @ PutUint32 (GoAwayFrame.ErrorCode f)"
  let ?g = "f\<lparr>LastStreamID := 0, GoAwayFrame.ErrorCode := 0, AdditionalDebugData := []\<rparr>"
  from assms have d: "AdditionalDebugData f = []" by simp
  have enc: "encode (GoAway_Frame f) = FrameHeader_bytes f @ ?p"
    by (simp add: encode_def GoAwayFrame_Write_buffer d)
  have al: "alloc_Frame (FrameHeader.truncate f) = Some (GoAway_Frame ?g)"
    using assms by (simp add: alloc_Frame_def FrameHeader.defs GoAwayFrame.defs FrameType_defs)
  have rd: "GoAwayFrame_Read ?g ?p = Inr (f, [])"
    using binary_Read_uint32_PutUint32 [of "GoAwayFrame.ErrorCode f" "[]"] d
    by (simp add: GoAwayFrame_Read_def binary_Read_uint32_PutUint32 binary_Read_bytes_def
        ReadFull_def)
  show ?thesis
    unfolding decode_def enc FrameHeader_Read_truncate by (simp add: al rd lift_Read_def)
qed

lemma roundtrip_WindowUpdate:
  assumes "wire_exact (WindowUpdate_Frame f)"
  shows "decode (encode (WindowUpdate_Frame f)) = Some (Inr (WindowUpdate_Frame f, []))"
proof -
  let ?g = "f\<lparr>WindowSizeIncrement := 0\<rparr>"
  have enc: "encode (WindowUpdate_Frame f) =
      FrameHeader_bytes f @ PutUint32 (WindowSizeIncrement f)"
    by (simp add: encode_def WindowUpdateFrame_Write_buffer)
  have al: "alloc_Frame (FrameHeader.truncate f) = Some (WindowUpdate_Frame ?g)"
    using assms
    by (simp add: alloc_Frame_def FrameHeader.defs WindowUpdateFrame.defs FrameType_defs)
  have rd: "WindowUpdateFrame_Read ?g (PutUint32 (WindowSizeIncrement f)) = Inr (f, [])"
    using binary_Read_uint32_PutUint32 [of "WindowSizeIncrement f" "[]"]
    by (simp add: WindowUpdateFrame_Read_def)
  show ?thesis
    unfolding decode_def enc FrameHeader_Read_truncate by (simp add: al rd lift_Read_def)
qed

text \<open>
  Claim C2, as the code has it. For every frame of one of the six implemented types
  that carries no \<^verbatim>\<open>PADDED\<close> flag, whose stored length is the number of payload
  bytes its \<^verbatim>\<open>Read\<close> takes and whose fields that are not written are zero, reading
  back the bytes its \<^verbatim>\<open>Write\<close> produced gives exactly that frame and leaves no
  byte unread. Nothing is normalised on the way: length, flags and all 32 bits of the
  stream identifier come back as they were stored.
\<close>

theorem decode_encode:
  "wire_exact f \<Longrightarrow> decode (encode f) = Some (Inr (f, []))"
  by (cases f) (simp_all only: roundtrip_Data roundtrip_Headers roundtrip_RstStream
      roundtrip_Settings roundtrip_GoAway roundtrip_WindowUpdate)

text \<open>A HEADERS frame with a priority and a header block of two bytes.\<close>

theorem decode_encode_witness:
  "wire_exact (Headers_Frame
      ((NewHeadersFrame PRIORITY 1)\<lparr>Length := 6, Priority := 7, HeaderBlock := [1, 2]\<rparr>)) \<and>
   decode (encode (Headers_Frame
      ((NewHeadersFrame PRIORITY 1)\<lparr>Length := 6, Priority := 7, HeaderBlock := [1, 2]\<rparr>))) =
     Some (Inr (Headers_Frame
      ((NewHeadersFrame PRIORITY 1)\<lparr>Length := 6, Priority := 7, HeaderBlock := [1, 2]\<rparr>), []))"
proof -
  have w: "wire_exact (Headers_Frame
      ((NewHeadersFrame PRIORITY 1)\<lparr>Length := 6, Priority := 7, HeaderBlock := [1, 2]\<rparr>))"
    by (simp add: New_defs PRIORITY_def PADDED_def HeadersFrameType_def)
  show ?thesis by (rule conjI [OF w decode_encode [OF w]])
qed

text \<open>
  Against claim C2 as stated: the DATA frame that \<^verbatim>\<open>NewDataFrame(0, 1)\<close> builds,
  given three bytes of data. Its stored length is still 0 and \<^verbatim>\<open>Write\<close> emits it so;
  the reader then takes no payload, returns a frame without data and leaves the three
  bytes unread.
\<close>

theorem decode_encode_counterexample:
  "decode (encode (Data_Frame ((NewDataFrame 0 1)\<lparr>Data := [1, 2, 3]\<rparr>))) =
     Some (Inr (Data_Frame (NewDataFrame 0 1), [1, 2, 3])) \<and>
   Data_Frame (NewDataFrame 0 1) \<noteq> Data_Frame ((NewDataFrame 0 1)\<lparr>Data := [1, 2, 3]\<rparr>)"
proof -
  let ?f = "(NewDataFrame 0 1)\<lparr>Data := [1, 2, 3]\<rparr>"
  have enc: "encode (Data_Frame ?f) = FrameHeader_bytes ?f @ [1, 2, 3]"
    by (simp add: encode_def DataFrame_Write_buffer)
  have al: "alloc_Frame (FrameHeader.truncate ?f) = Some (Data_Frame (NewDataFrame 0 1))"
    by (simp add: alloc_Frame_def New_defs)
  have rd: "DataFrame_Read (NewDataFrame 0 1) [1, 2, 3] = Inr (NewDataFrame 0 1, [1, 2, 3])"
    by (simp add: DataFrame_Read_unpadded binary_Read_bytes_def ReadFull_def New_defs)
  have "decode (encode (Data_Frame ?f)) = Some (Inr (Data_Frame (NewDataFrame 0 1), [1, 2, 3]))"
    unfolding decode_def enc FrameHeader_Read_truncate by (simp add: al rd lift_Read_def)
  moreover have "Data_Frame (NewDataFrame 0 1) \<noteq> Data_Frame ?f"
    by (simp add: New_defs)
  ultimately show ?thesis by simp
qed

text \<open>
  Two frames outside \<open>wire_exact\<close>. A HEADERS frame with \<^verbatim>\<open>PADDED\<close> is written
  without a pad length, and its reader takes the first byte of the header block for
  one. The debug data of a GOAWAY frame is written, and a newly allocated frame reads
  none of it.
\<close>

lemma decode_encode_Headers_PADDED:
  "decode (encode (Headers_Frame
      ((NewHeadersFrame PADDED 1)\<lparr>Length := 3, HeaderBlock := [1, 2, 3]\<rparr>))) =
     Some (Inr (Headers_Frame
      ((NewHeadersFrame PADDED 1)\<lparr>Length := 3, HeaderBlock := [2]\<rparr>), []))"
proof -
  let ?f = "(NewHeadersFrame PADDED 1)\<lparr>Length := 3, HeaderBlock := [1, 2, 3]\<rparr>"
  have enc: "encode (Headers_Frame ?f) = FrameHeader_bytes ?f @ [1, 2, 3]"
    by (simp add: encode_def HeadersFrame_Write_buffer New_defs PADDED_def PRIORITY_def)
  have al: "alloc_Frame (FrameHeader.truncate ?f) =
      Some (Headers_Frame ((NewHeadersFrame PADDED 1)\<lparr>Length := 3\<rparr>))"
    by (simp add: alloc_Frame_def New_defs FrameType_defs)
  have rd: "HeadersFrame_Read ((NewHeadersFrame PADDED 1)\<lparr>Length := 3\<rparr>) [1, 2, 3] =
      Inr ((NewHeadersFrame PADDED 1)\<lparr>Length := 3, HeaderBlock := [2]\<rparr>, [])"
    by (simp add: HeadersFrame_Read_def Let_def New_defs PADDED_def PRIORITY_def
        binary_Read_uint8_def binary_Read_bytes_def ReadFull_def slice_to_def)
  show ?thesis
    unfolding decode_def enc FrameHeader_Read_truncate by (simp add: al rd lift_Read_def)
qed

lemma decode_encode_GoAway_debug:
  "decode (encode (GoAway_Frame
      ((NewGoAwayFrame 3 NO_ERROR 0)\<lparr>Length := 9, AdditionalDebugData := [7]\<rparr>))) =
     Some (Inr (GoAway_Frame ((NewGoAwayFrame 3 NO_ERROR 0)\<lparr>Length := 9\<rparr>), [7]))"
proof -
  let ?f = "(NewGoAwayFrame 3 NO_ERROR 0)\<lparr>Length := 9, AdditionalDebugData := [7]\<rparr>"
  let ?p = "PutUint32 3 @ PutUint32 NO_ERROR @ [7]"
  have enc: "encode (GoAway_Frame ?f) = FrameHeader_bytes ?f @ ?p"
    by (simp add: encode_def GoAwayFrame_Write_buffer New_defs)
  have al: "alloc_Frame (FrameHeader.truncate ?f) =
      Some (GoAway_Frame ((NewGoAwayFrame 0 0 0)\<lparr>Length := 9\<rparr>))"
    by (simp add: alloc_Frame_def New_defs FrameType_defs)
  have rd: "GoAwayFrame_Read ((NewGoAwayFrame 0 0 0)\<lparr>Length := 9\<rparr>) ?p =
      Inr ((NewGoAwayFrame 3 NO_ERROR 0)\<lparr>Length := 9\<rparr>, [7])"
    by (simp add: GoAwayFrame_Read_def binary_Read_uint32_PutUint32 binary_Read_bytes_def
        ReadFull_def New_defs)
  show ?thesis
    unfolding decode_def enc FrameHeader_Read_truncate by (simp add: al rd lift_Read_def)
qed

text \<open>
  The frames that the constructors for RST_STREAM, GOAWAY, WINDOW_UPDATE and SETTINGS
  build are in \<open>wire_exact\<close>.
\<close>

lemma New_frames_wire_exact:
  "wire_exact (RstStream_Frame (NewRstStreamFrame errorCode streamId))"
  "wire_exact (GoAway_Frame (NewGoAwayFrame lastStreamId errorCode streamId))"
  "wire_exact (WindowUpdate_Frame (NewWindowUpdateFrame incrementSize streamId))"
  by (simp_all add: New_defs)

lemma unat_of_nat_5: "5 * n < 2 ^ 32 \<Longrightarrow> unat (of_nat (5 * n) :: uint32) = 5 * n"
proof -
  assume a: "5 * n < 2 ^ 32"
  have "unat (of_nat (5 * n) :: uint32) = (5 * n) mod 2 ^ LENGTH(32)"
    by (rule unat_of_nat)
  also have "\<dots> = 5 * n"
    using a by simp
  finally show ?thesis .
qed

lemma NewSettingsFrame_wire_exact:
  assumes "5 * length setting < 2 ^ 32"
  shows "wire_exact (Settings_Frame (NewSettingsFrame flags setting streamId))"
proof -
  have "Length (NewSettingsFrame flags setting streamId) = of_nat (5 * length setting)"
    by (simp add: New_defs Let_def del: of_nat_mult)
  moreover have "length (Settings (NewSettingsFrame flags setting streamId)) = length setting"
    by (simp add: New_defs Let_def del: of_nat_mult)
  moreover have "Type (NewSettingsFrame flags setting streamId) = SettingsFrameType"
    by (simp add: New_defs Let_def del: of_nat_mult)
  ultimately show ?thesis
    using unat_of_nat_5 [OF assms] by simp
qed

subsection \<open>The length a writer emits\<close>

text \<open>
  Claim C6, as the code has it. For every frame, the header that can be read back from
  the bytes its \<^verbatim>\<open>Write\<close> produced is the header the frame stores: the length on
  the wire is the stored \<^verbatim>\<open>Length\<close> field, copied and never recomputed. For a DATA
  frame the bytes after the header are its data, so the length on the wire is the
  number of payload bytes only if the caller has stored that number.
\<close>

theorem encode_keeps_stored_Length:
  "\<exists>payload. FrameHeader_Read fh (encode f) = Inr (Frame_Header f, payload) \<and>
      (\<forall>d. f = Data_Frame d \<longrightarrow> payload = Data d)"
  by (cases f) (simp_all add: encode_def Write_buffer FrameHeader_Read_truncate)

text \<open>The DATA frame of \<^verbatim>\<open>NewDataFrame(0, 1)\<close> with three bytes of data.\<close>

theorem encode_keeps_stored_Length_witness:
  "FrameHeader_Read (NewFrameHeader 0 0 0 0)
      (encode (Data_Frame ((NewDataFrame 0 1)\<lparr>Data := [1, 2, 3]\<rparr>))) =
     Inr (NewFrameHeader 0 DataFrameType 0 1, [1, 2, 3])"
  using encode_keeps_stored_Length [of "NewFrameHeader 0 0 0 0"
      "Data_Frame ((NewDataFrame 0 1)\<lparr>Data := [1, 2, 3]\<rparr>)"]
  by (auto simp: New_defs)

text \<open>
  Against claim C6 as stated: the same frame is written with a length field of 0 in
  front of three payload bytes.
\<close>

theorem DataFrame_Write_counterexample:
  "DataFrame_Write ((NewDataFrame 0 1)\<lparr>Data := [1, 2, 3]\<rparr>) (Writer [] None) =
     (None, Writer ([0, 0, 0, 0, 0, 0, 0, 0, 0, 1] @ [1, 2, 3]) None) \<and>
   FrameHeader_Read (NewFrameHeader 0 0 0 0) ([0, 0, 0, 0, 0, 0, 0, 0, 0, 1] @ [1, 2, 3]) =
     Inr (NewFrameHeader 0 DataFrameType 0 1, [1, 2, 3]) \<and>
   unat (Length (NewFrameHeader 0 DataFrameType 0 1)) \<noteq> length [1 :: uint8, 2, 3]"
  by (simp add: DataFrame_Write_buffer FrameHeader_bytes_def PutUint32_def New_defs
      DataFrameType_def FrameHeader_Read_def ReadFull_def Uint32_def)

subsection \<open>DATA with padding\<close>

text \<open>
  Claim C4. The claim asks that the first payload byte of a padded DATA frame be taken
  as pad length and that many trailing bytes be dropped. The frame with
  \<^verbatim>\<open>PADDED\<close> set, length 3 and payload \<open>01 AA 00\<close> (pad length 1, data \<open>AA\<close>, one
  byte of padding) is read as three bytes of data: no pad length is read and nothing
  is dropped.
\<close>

theorem DataFrame_Read_never_strips_padding:
  "DataFrame_Read ((NewDataFrame PADDED 1)\<lparr>Length := 3\<rparr>) [0x01, 0xAA, 0x00] =
     Inr ((NewDataFrame PADDED 1)\<lparr>Length := 3, Data := [0x01, 0xAA, 0x00]\<rparr>, [])"
  by (simp add: DataFrame_Read_def Let_def PADDED_def New_defs binary_Read_bytes_def
      ReadFull_def slice_to_def)

subsection \<open>HEADERS with padding\<close>

text \<open>
  Claim C8. The claim asks for an error result. A padded HEADERS frame of length 2
  whose pad length byte is 5 makes \<^verbatim>\<open>HeadersFrame.Read\<close> panic in its slice
  expression; and with a declared length of 0 the remaining length wraps around to
  \<open>2^32 - 1\<close>, so that the read of the header block ends in the reader's end-of-file
  error.
\<close>

theorem HeadersFrame_Read_padding_panics:
  "HeadersFrame_Read ((NewHeadersFrame PADDED 1)\<lparr>Length := 2\<rparr>) [0x05, 0xAA] =
     Inl (Panic SliceBoundsOutOfRange) \<and>
   HeadersFrame_Read ((NewHeadersFrame PADDED 1)\<lparr>Length := 0\<rparr>) [0x00] = Inl (Err EOF)"
  by (simp add: HeadersFrame_Read_def Let_def PADDED_def PRIORITY_def New_defs
      binary_Read_uint8_def binary_Read_bytes_def ReadFull_def slice_to_def unat_uint32_minus_1)

subsection \<open>RST_STREAM\<close>

text \<open>
  Claim C7, as the code has it. Whatever length the header declares, reading an
  RST_STREAM payload takes exactly four bytes as a big-endian error code when the
  reader holds at least four, and otherwise fails with the reader's end-of-file
  error. The declared length is never looked at.
\<close>

theorem RstStreamFrame_Read_any_Length:
  "RstStreamFrame_Read (frame\<lparr>Length := n\<rparr>) r =
     (if 4 \<le> length r
      then Inr (frame\<lparr>Length := n, RstStreamFrame.ErrorCode := Uint32 (take 4 r)\<rparr>, drop 4 r)
      else Inl (Err (if r = [] then EOF else ErrUnexpectedEOF)))"
  by (simp add: RstStreamFrame_Read_def binary_Read_uint32_def ReadFull_def)

text \<open>A declared length of 5 over five bytes, and a declared length of 4 over three.\<close>

theorem RstStreamFrame_Read_any_Length_witness:
  "RstStreamFrame_Read ((NewRstStreamFrame NO_ERROR 5)\<lparr>Length := 5\<rparr>)
       [0x00, 0x00, 0x00, 0x08, 0x00] =
     Inr ((NewRstStreamFrame NO_ERROR 5)\<lparr>Length := 5, RstStreamFrame.ErrorCode := 8\<rparr>,
          [0x00]) \<and>
   RstStreamFrame_Read ((NewRstStreamFrame NO_ERROR 5)\<lparr>Length := 4\<rparr>) [0x00, 0x00, 0x00] =
     Inl (Err ErrUnexpectedEOF)"
  using RstStreamFrame_Read_any_Length [where frame = "NewRstStreamFrame NO_ERROR 5" and n = 5
      and r = "[0x00, 0x00, 0x00, 0x08, 0x00]"]
    RstStreamFrame_Read_any_Length [where frame = "NewRstStreamFrame NO_ERROR 5" and n = 4
      and r = "[0x00, 0x00, 0x00]"]
  by (simp add: Uint32_def)

text \<open>
  Against claim C7 as stated: an RST_STREAM frame whose header declares length 5 is
  read without error, with error code 8, and one byte is left in the reader.
\<close>

theorem RstStreamFrame_Read_counterexample:
  "RstStreamFrame_Read ((NewRstStreamFrame NO_ERROR 5)\<lparr>Length := 5\<rparr>)
       [0x00, 0x00, 0x00, 0x08, 0x00] =
     Inr ((NewRstStreamFrame CANCEL 5)\<lparr>Length := 5\<rparr>, [0x00])"
  by (simp add: RstStreamFrame_Read_def New_defs binary_Read_uint32_def ReadFull_def Uint32_def
      NO_ERROR_def CANCEL_def)

subsection \<open>SETTINGS\<close>

text \<open>
  Claim C3. The claim asks for entries of six bytes, a two-byte identifier and a
  four-byte value, and \<open>length / 6\<close> of them. The SETTINGS payload of length 12 that
  carries the entries (3, 100) and (4, 65535) in that layout is read as
  \<open>12 / 5 = 2\<close> entries of five bytes, a one-byte identifier and a four-byte value:
  (0, 0x03000000) and (0x64, 0x00040000), with two bytes left unread.
\<close>

theorem SettingsFrame_Read_five_byte_entries:
  "SettingsFrame_Read ((NewSettingsFrame 0 [] 0)\<lparr>Length := 12\<rparr>)
       [0x00, 0x03, 0x00, 0x00, 0x00, 0x64, 0x00, 0x04, 0x00, 0x00, 0xFF, 0xFF] =
     Inr ((NewSettingsFrame 0 [] 0)
            \<lparr>Length := 12,
             Settings := [\<lparr>SettingsId = 0x00, Value = 0x03000000\<rparr>,
                          \<lparr>SettingsId = 0x64, Value = 0x00040000\<rparr>]\<rparr>,
          [0xFF, 0xFF])"
proof -
  have niv: "unat ((12 :: uint32) div 5) = Suc (Suc 0)" by simp
  have len: "Length ((NewSettingsFrame 0 [] 0)\<lparr>Length := 12\<rparr>) = 12" by simp
  show ?thesis
    unfolding SettingsFrame_Read_def len niv
    by (simp add: New_defs binary_Read_uint8_def binary_Read_uint32_def ReadFull_def Uint32_def)
qed

subsection \<open>Error codes\<close>

lemmas ErrorCode_defs = NO_ERROR_def PROTOCOL_ERROR_def INTERNAL_ERROR_def
  FLOW_CONTROL_ERROR_def SETTINGS_TIMEOUT_def STREAM_CLOSED_def FRAME_SIZE_ERROR_def
  REFUSED_STREAM_def CANCEL_def COMPRESSION_ERROR_def CONNECT_ERROR_def ENHANCE_YOUR_CALM_def
  INADEQUATE_SECURITY_def

text \<open>
  Claim C9, as the code has it. The thirteen error codes from \<^verbatim>\<open>NO_ERROR\<close> to
  \<^verbatim>\<open>INADEQUATE_SECURITY\<close> have the values 0 to 12 in this order, and
  \<^verbatim>\<open>String\<close> gives the codes 0 and 1 their own names.
\<close>

theorem ErrorCode_values:
  "map unat [NO_ERROR, PROTOCOL_ERROR, INTERNAL_ERROR, FLOW_CONTROL_ERROR, SETTINGS_TIMEOUT,
     STREAM_CLOSED, FRAME_SIZE_ERROR, REFUSED_STREAM, CANCEL, COMPRESSION_ERROR, CONNECT_ERROR,
     ENHANCE_YOUR_CALM, INADEQUATE_SECURITY] = [0, 1, 2, 3, 4, 5, 6, 7, 8, 9, 10, 11, 12] \<and>
   ErrorCode_String NO_ERROR = Inr ''NO_ERROR'' \<and>
   ErrorCode_String PROTOCOL_ERROR = Inr ''PROTOCOL_ERROR''"
  by (simp add: ErrorCode_defs ErrorCode_String_def index_def ErrorCode_errors_def)

text \<open>
  Against claim C9 as stated: \<^verbatim>\<open>INADEQUATE_SECURITY\<close> is 12, not 13.
\<close>

theorem ErrorCode_counterexample:
  "unat INADEQUATE_SECURITY = 12 \<and> unat INADEQUATE_SECURITY \<noteq> 13"
  by (simp add: INADEQUATE_SECURITY_def)

text \<open>
  The table of \<^verbatim>\<open>String\<close> holds \<^verbatim>\<open>PROTOCOL_ERROR\<close> twice, so from code 2 on
  each code is given the name of the code before it.
\<close>

lemma ErrorCode_String_shifted:
  "ErrorCode_String INTERNAL_ERROR = Inr ''PROTOCOL_ERROR'' \<and>
   ErrorCode_String INADEQUATE_SECURITY = Inr ''ENHANCE_YOUR_CALM''"
  by (simp add: ErrorCode_defs ErrorCode_String_def index_def ErrorCode_errors_def)

end
